theory Spec2Isabelle
  imports Complex_Main "HOL-Library.AList"
begin

section \<open>The census enrichment pipeline (\<^verbatim>\<open>openfido.py\<close>)\<close>

text \<open>
  The module resolves the U.S. state and the ZIP code tabulation area of tabular records.
  It has three functions of interest: \<^verbatim>\<open>get_states\<close> and \<^verbatim>\<open>get_zipcodes\<close>, which
  download, cache and search boundary datasets, and \<^verbatim>\<open>main\<close>, which drives them over
  the rows of a pandas DataFrame and merges the requested columns back into it.

  The embedding is shallow. Every Python function is a HOL function of the same name
  that takes the process state explicitly and returns the outcome together with
  the state it leaves behind; a raised exception is the outcome \<open>Inl e\<close>. What the
  program obtains from its libraries (pandas, geopandas, shapely, pickle, urllib, os)
  is modelled by small executable definitions over first-order data, or, where the
  library's answer cannot be computed here (point-in-polygon tests, what a URL
  serves, how a string parses as a float), taken as a field of an environment record.
\<close>

subsection \<open>Values, rows and frames\<close>

text \<open>
  A Python float is a real number or one of the three special values. The program
  does no arithmetic on floats: it converts, compares for equality and tests
  truthiness, so nothing depends on rounding.
\<close>

datatype pyfloat = Fin real | PInf | NInf | Nan

text \<open>
  A cell of a DataFrame: a string, an integer, a float (pandas' missing value is the
  float \<open>Nan\<close>), or a shapely geometry of the abstract type \<open>'g\<close>.
\<close>

datatype 'g cell = PyStr string | PyInt int | PyFloat pyfloat | PyGeom 'g

type_synonym 'g row = "(string \<times> 'g cell) list"

text \<open>
  A DataFrame (or GeoDataFrame): its column names in order and its rows in order, each
  row with its index label. A row is an association list from column names to cells; a
  column the row does not mention holds the missing value.
\<close>

record 'g frame =
  columns :: "string list"
  rws :: "(nat \<times> 'g row) list"

definition cell_of :: "'g row \<Rightarrow> string \<Rightarrow> 'g cell" where
  "cell_of r c = (case map_of r c of Some v \<Rightarrow> v | None \<Rightarrow> PyFloat Nan)"

text \<open>\<^verbatim>\<open>frame[c]\<close> as a Series: the labelled values of column \<open>c\<close>.\<close>

definition series :: "'g frame \<Rightarrow> string \<Rightarrow> (nat \<times> 'g cell) list" where
  "series f c = map (\<lambda>(l, r). (l, cell_of r c)) (rws f)"

text \<open>Python's truth value of a float and of a string.\<close>

fun float_bool :: "pyfloat \<Rightarrow> bool" where
  "float_bool (Fin x) = (x \<noteq> 0)"
| "float_bool _ = True"

text \<open>
  The truth value of a cell (\<^verbatim>\<open>if value:\<close>); \<open>gb\<close> is shapely's truth value of a
  geometry.
\<close>

fun cell_bool :: "('g \<Rightarrow> bool) \<Rightarrow> 'g cell \<Rightarrow> bool" where
  "cell_bool gb (PyStr s) = (s \<noteq> [])"
| "cell_bool gb (PyInt i) = (i \<noteq> 0)"
| "cell_bool gb (PyFloat x) = float_bool x"
| "cell_bool gb (PyGeom g) = gb g"

text \<open>
  Elementwise \<^verbatim>\<open>==\<close> of a column with a scalar. \<open>Nan\<close> equals nothing, itself
  included; an integer equals the float of the same value; values of different kinds
  are unequal.
\<close>

fun float_eq :: "pyfloat \<Rightarrow> pyfloat \<Rightarrow> bool" where
  "float_eq Nan _ = False"
| "float_eq _ Nan = False"
| "float_eq x y = (x = y)"

fun py_eq :: "'g cell \<Rightarrow> 'g cell \<Rightarrow> bool" where
  "py_eq (PyStr a) (PyStr b) = (a = b)"
| "py_eq (PyInt a) (PyInt b) = (a = b)"
| "py_eq (PyInt a) (PyFloat y) = float_eq (Fin (of_int a)) y"
| "py_eq (PyFloat x) (PyInt b) = float_eq x (Fin (of_int b))"
| "py_eq (PyFloat x) (PyFloat y) = float_eq x y"
| "py_eq (PyGeom a) (PyGeom b) = (a = b)"
| "py_eq _ _ = False"

subsection \<open>Exceptions\<close>

text \<open>
  The exceptions the program can raise. \<open>Exception\<close> is the generic one that \<^verbatim>\<open>main\<close>
  raises itself, with its message. The others come from the interpreter or a library:
  \<open>NameError\<close> with the unbound name, \<open>KeyError\<close> with the key, \<open>OSError\<close> with the
  path, \<open>URLError\<close> with the address that could not be opened, \<open>DriverError\<close> for an
  archive that geopandas cannot parse, \<open>UnpicklingError\<close> for a cache file that is no
  pickle. (The exception of a response that breaks while it is read needs no
  constructor: the only place that reads a response catches everything.)
\<close>

datatype error =
    NameError string
  | KeyError string
  | ValueError string
  | TypeError string
  | IndexError
  | Exception string
  | OSError string
  | URLError string
  | DriverError string
  | UnpicklingError string


subsection \<open>Frame operations of pandas\<close>

text \<open>Boolean-mask selection \<^verbatim>\<open>frame[mask]\<close>: the rows whose mask is true, labels kept.\<close>

definition select_rows :: "('g row \<Rightarrow> bool) \<Rightarrow> 'g frame \<Rightarrow> 'g frame" where
  "select_rows P f = f\<lparr>rws := filter (\<lambda>(l, r). P r) (rws f)\<rparr>"

text \<open>
  \<^verbatim>\<open>frame.reset_index()\<close>: the old labels become a new first column, named \<open>index\<close>, or
  \<open>level_0\<close> when there is a column \<open>index\<close> already; the rows are relabelled from 0.
  Inserting a column that exists raises ValueError.
\<close>

definition relabel :: "'g row list \<Rightarrow> (nat \<times> 'g row) list" where
  "relabel rs = zip [0 ..< length rs] rs"

definition reset_index :: "'g frame \<Rightarrow> error + 'g frame" where
  "reset_index f =
     (let nm = (if ''index'' \<in> set (columns f) then ''level_0'' else ''index'')
      in if nm \<in> set (columns f) then Inl (ValueError nm)
         else Inr \<lparr>columns = nm # columns f,
                   rws = relabel (map (\<lambda>(l, r). (nm, PyInt (int l)) # r) (rws f))\<rparr>)"

text \<open>The distinct elements of a list in the order of their first occurrence.\<close>

definition uniq :: "string list \<Rightarrow> string list" where
  "uniq xs = rev (remdups (rev xs))"

text \<open>
  \<^verbatim>\<open>pandas.concat(frames, ignore_index=True)\<close>: the rows of all frames in order,
  relabelled from 0, over the union of the columns; a frame's rows hold the missing
  value in the columns of the others. An empty list raises ValueError.
\<close>

definition concat_frames :: "'g frame list \<Rightarrow> error + 'g frame" where
  "concat_frames fs =
     (if fs = [] then Inl (ValueError ''No objects to concatenate'')
      else Inr \<lparr>columns = uniq (concat (map columns fs)),
                rws = relabel (map snd (concat (map rws fs)))\<rparr>)"

text \<open>
  \<^verbatim>\<open>data[field] = series\<close>: the column is added at the end, or overwritten where it
  stands; the series is aligned on the index, so a row takes the value the series
  has at the row's label and the missing value when it has none.
\<close>

definition setitem :: "'g frame \<Rightarrow> string \<Rightarrow> (nat \<times> 'g cell) list \<Rightarrow> 'g frame" where
  "setitem d c s =
     \<lparr>columns = (if c \<in> set (columns d) then columns d else columns d @ [c]),
      rws = map (\<lambda>(l, r). (l, AList.update c (case map_of s l of Some v \<Rightarrow> v | None \<Rightarrow> PyFloat Nan) r))
                (rws d)\<rparr>"

text \<open>\<^verbatim>\<open>s.split(',')\<close>.\<close>

fun split_on :: "char \<Rightarrow> string \<Rightarrow> string list" where
  "split_on c [] = [[]]"
| "split_on c (x # xs) =
     (if x = c then [] # split_on c xs
      else (case split_on c xs of [] \<Rightarrow> [[x]] | h # t \<Rightarrow> (x # h) # t))"

subsection \<open>The process: module globals, file system, network\<close>

text \<open>What a file holds: nothing yet, a shapefile archive, a pickled frame, other bytes.\<close>

datatype 'g blob = Truncated | Shapefile "'g frame" | Pickled "'g frame" | Bytes string

text \<open>
  What opening a URL gives: a connection error, a response whose \<^verbatim>\<open>read()\<close> raises, or
  a response with a body.
\<close>

datatype 'g response = Unreachable | Broken | Body "'g blob"

text \<open>
  The mutable state of the process: the two module globals \<^verbatim>\<open>state_data\<close> and
  \<^verbatim>\<open>zipcode_data\<close> (\<open>None\<close> until a dataset is loaded), the files and directories of
  the file system, the addresses opened so far, and the lines written to stderr.
\<close>

record 'g world =
  state_data :: "'g frame option"
  zipcode_data :: "'g frame option"
  files :: "string \<Rightarrow> 'g blob option"
  dirs :: "string set"
  requests :: "string list"
  stderr :: "string list"

text \<open>The dictionary \<^verbatim>\<open>CONFIG\<close>, as far as the three functions read it.\<close>

record config =
  urladdr :: string
  cachedir :: string
  states_filename :: string
  zipcode_filename :: string
  warning_on :: bool

text \<open>The dictionary \<^verbatim>\<open>OPTIONS\<close>.\<close>

record options =
  state_fields :: string
  zipcode_fields :: string
  tract_fields :: string

text \<open>
  What the process does not change while it runs. \<open>bound\<close> tells which global names
  the module namespace binds: the module's import statements bind \<open>sys\<close>, \<open>os\<close>,
  \<open>json\<close>, \<open>csv\<close>, \<open>pd\<close>, \<open>Point\<close>, \<open>geocode\<close> and \<open>reverse_geocode\<close> and no
  others (\<open>module_names\<close> below), and a function that reads another global name raises
  NameError. The namespace is a field, not a constant, so that what the functions do
  once a name is bound can be stated too. The other fields are the library answers the
  model cannot compute: the network (\<open>urlopen\<close>), shapely's \<^verbatim>\<open>Point(x, y)\<close>,
  its containment test \<^verbatim>\<open>polygon.contains(point)\<close> and its truth value of a
  geometry, and Python's parse of a string as a float.
\<close>

record 'g env =
  bound :: "string \<Rightarrow> bool"
  urlopen :: "string \<Rightarrow> 'g response"
  Point :: "pyfloat \<Rightarrow> pyfloat \<Rightarrow> 'g"
  geom_contains :: "'g \<Rightarrow> 'g \<Rightarrow> bool"
  geom_bool :: "'g \<Rightarrow> bool"
  parse_float :: "string \<Rightarrow> pyfloat option"
  CONFIG :: config

text \<open>The global names the module binds before \<^verbatim>\<open>main\<close> runs (lines 53 to 400).\<close>

definition module_names :: "string list" where
  "module_names =
     [''version'', ''sys'', ''os'', ''json'', ''csv'', ''pd'', ''Point'', ''geocode'',
      ''reverse_geocode'', ''NAME'', ''OPENFIDO_INPUT'', ''OPENFIDO_OUTPUT'', ''OPTIONS'',
      ''CONFIG'', ''MissingEnvironment'', ''MissingInput'', ''verbose'', ''error'', ''debug'',
      ''warning'', ''load_config'', ''state_tract_codes'', ''state_zipcode0'', ''main'',
      ''state_data'', ''get_states'', ''zipcode_data'', ''get_zipcodes'']"

definition module_bound :: "string \<Rightarrow> bool" where
  "module_bound n = (n \<in> set module_names)"

subsection \<open>Computations that may raise\<close>

type_synonym ('a, 'g) py = "'g world \<Rightarrow> (error + 'a) \<times> 'g world"

definition ret :: "'a \<Rightarrow> ('a, 'g) py" where
  "ret a w = (Inr a, w)"

definition raise :: "error \<Rightarrow> ('a, 'g) py" where
  "raise e w = (Inl e, w)"

definition bnd :: "('a, 'g) py \<Rightarrow> ('a \<Rightarrow> ('b, 'g) py) \<Rightarrow> ('b, 'g) py" where
  "bnd m f w = (case m w of (Inl e, w') \<Rightarrow> (Inl e, w') | (Inr a, w') \<Rightarrow> f a w')"

text \<open>Lifting a pure result that is a value or an exception.\<close>

definition lift :: "error + 'a \<Rightarrow> ('a, 'g) py" where
  "lift r w = (r, w)"

text \<open>Reading a global name of the module.\<close>

definition name :: "'g env \<Rightarrow> string \<Rightarrow> (unit, 'g) py" where
  "name env n = (if bound env n then ret () else raise (NameError n))"

subsection \<open>Operating system, network and serialisation\<close>

text \<open>\<^verbatim>\<open>os.path.exists(p)\<close>.\<close>

definition path_exists :: "'g world \<Rightarrow> string \<Rightarrow> bool" where
  "path_exists w p = (files w p \<noteq> None \<or> p \<in> dirs w)"

text \<open>\<^verbatim>\<open>os.makedirs(d, exist_ok=True)\<close>: raises when \<open>d\<close> is a file.\<close>

definition makedirs :: "string \<Rightarrow> (unit, 'g) py" where
  "makedirs d w =
     (if files w d \<noteq> None then (Inl (OSError d), w)
      else (Inr (), w\<lparr>dirs := insert d (dirs w)\<rparr>))"

text \<open>
  \<^verbatim>\<open>open(p, "wb")\<close> for a path \<open>p\<close> directly under the directory \<open>d\<close>: the
  directory must exist and \<open>p\<close> must not be a directory; the file is created, or
  emptied when it exists.
\<close>

definition open_wb :: "string \<Rightarrow> string \<Rightarrow> (unit, 'g) py" where
  "open_wb d p w =
     (if d \<in> dirs w \<and> p \<notin> dirs w then (Inr (), w\<lparr>files := (files w)(p \<mapsto> Truncated)\<rparr>)
      else (Inl (OSError p), w))"

text \<open>Writing the whole content to a file that was opened for writing.\<close>

definition write_file :: "string \<Rightarrow> 'g blob \<Rightarrow> (unit, 'g) py" where
  "write_file p b w = (Inr (), w\<lparr>files := (files w)(p \<mapsto> b)\<rparr>)"

text \<open>\<^verbatim>\<open>open(p, "rb")\<close> and reading the content.\<close>

definition open_rb :: "string \<Rightarrow> ('g blob, 'g) py" where
  "open_rb p w = (case files w p of None \<Rightarrow> (Inl (OSError p), w) | Some b \<Rightarrow> (Inr b, w))"

text \<open>\<^verbatim>\<open>os.remove(p)\<close>: raises when there is no such file.\<close>

definition os_remove :: "string \<Rightarrow> (unit, 'g) py" where
  "os_remove p w =
     (case files w p of None \<Rightarrow> (Inl (OSError p), w)
      | Some b \<Rightarrow> (Inr (), w\<lparr>files := (files w)(p := None)\<rparr>))"

text \<open>
  \<^verbatim>\<open>urllib.request.urlopen(url)\<close>: the address is recorded; a connection error
  raises.
\<close>

definition url_open :: "'g env \<Rightarrow> string \<Rightarrow> ('g response, 'g) py" where
  "url_open env url w =
     (case urlopen env url of
        Unreachable \<Rightarrow> (Inl (URLError url), w\<lparr>requests := requests w @ [url]\<rparr>)
      | r \<Rightarrow> (Inr r, w\<lparr>requests := requests w @ [url]\<rparr>))"

text \<open>\<^verbatim>\<open>geopandas.read_file("zip://" + p)\<close>.\<close>

definition read_file :: "string \<Rightarrow> ('g frame, 'g) py" where
  "read_file p w =
     (case files w p of Some (Shapefile f) \<Rightarrow> (Inr f, w) | _ \<Rightarrow> (Inl (DriverError p), w))"

text \<open>\<^verbatim>\<open>pickle.load(f)\<close> on the content of a file.\<close>

definition pickle_load :: "string \<Rightarrow> 'g blob \<Rightarrow> ('g frame, 'g) py" where
  "pickle_load p b = (case b of Pickled f \<Rightarrow> ret f | _ \<Rightarrow> raise (UnpicklingError p))"

text \<open>
  The download both accessors perform when the archive is not in the cache directory
  (lines 368 to 372 and 414 to 418):
  \<^verbatim>\<open>
  with urllib.request.urlopen(url) as resp, open(file+".zip", "wb") as f:
      try:
          f.write(resp.read())
      except:
          os.remove(file)
  \<close>
  The name \<open>urllib\<close> is read first, then the address is opened, then the archive file
  is created under its final name. When reading the response raises, the handler
  removes the path \<open>file\<close>, which is the archive's path without its \<open>.zip\<close>: a
  missing path makes \<^verbatim>\<open>os.remove\<close> raise in turn, an existing one is deleted
  and the exception is swallowed. (A write that fails runs the same handler; the model
  has the failing read only.)
\<close>

definition download :: "'g env \<Rightarrow> string \<Rightarrow> string \<Rightarrow> string \<Rightarrow> (unit, 'g) py" where
  "download env url d file =
     bnd (name env ''urllib'') (\<lambda>_.
     bnd (url_open env url) (\<lambda>resp.
     bnd (open_wb d (file @ ''.zip'')) (\<lambda>_.
       case resp of Body b \<Rightarrow> write_file (file @ ''.zip'') b
       | _ \<Rightarrow> os_remove file)))"

text \<open>\<^verbatim>\<open>with open(p, "wb") as f: pickle.dump(frame, f)\<close>: the file is opened first.\<close>

definition dump_to :: "'g env \<Rightarrow> string \<Rightarrow> string \<Rightarrow> 'g frame \<Rightarrow> (unit, 'g) py" where
  "dump_to env d p f =
     bnd (open_wb d p) (\<lambda>_.
     bnd (name env ''pickle'') (\<lambda>_.
     write_file p (Pickled f)))"

text \<open>\<^verbatim>\<open>with open(p, "rb") as f: ... = pickle.load(f)\<close>.\<close>

definition load_from :: "'g env \<Rightarrow> string \<Rightarrow> ('g frame, 'g) py" where
  "load_from env p =
     bnd (open_rb p) (\<lambda>b.
     bnd (name env ''pickle'') (\<lambda>_.
     pickle_load p b))"

subsection \<open>The state dataset: \<^verbatim>\<open>get_states\<close>\<close>

text \<open>Storing into the module globals.\<close>

definition set_state_data :: "'g frame \<Rightarrow> (unit, 'g) py" where
  "set_state_data f w = (Inr (), w\<lparr>state_data := Some f\<rparr>)"

definition set_zipcode_data :: "'g frame \<Rightarrow> (unit, 'g) py" where
  "set_zipcode_data f w = (Inr (), w\<lparr>zipcode_data := Some f\<rparr>)"

text \<open>\<^verbatim>\<open>frame[c]\<close>: KeyError when there is no such column.\<close>

definition getitem_column :: "'g frame \<Rightarrow> string \<Rightarrow> error + (nat \<times> 'g cell) list" where
  "getitem_column f c = (if c \<in> set (columns f) then Inr (series f c) else Inl (KeyError c))"

text \<open>\<^verbatim>\<open>frame.contains(point)\<close> on one row: the test on the row's geometry.\<close>

definition row_contains :: "'g env \<Rightarrow> 'g \<Rightarrow> 'g row \<Rightarrow> bool" where
  "row_contains env p r =
     (case cell_of r ''geometry'' of PyGeom g \<Rightarrow> geom_contains env g p | _ \<Rightarrow> False)"

text \<open>
  The body of \<^verbatim>\<open>if type(state_data) == type(None):\<close> (lines 361 to 383) in its
  two steps. First the archive is downloaded unless \<open>states.zip\<close> exists (the same
  step opens \<^verbatim>\<open>get_zipcodes\<close>, lines 410 to 418). Then the dataset is parsed
  from the archive, stored in the global and pickled to \<open>states.gdf\<close>, unless that
  file exists, in which case it is unpickled from it.
\<close>

definition fetch_archive :: "'g env \<Rightarrow> string \<Rightarrow> string \<Rightarrow> string \<Rightarrow> (unit, 'g) py" where
  "fetch_archive env url d file w =
     (if \<not> path_exists w (file @ ''.zip'') then download env url d file w else ret () w)"

definition states_frame :: "'g env \<Rightarrow> string \<Rightarrow> string \<Rightarrow> (unit, 'g) py" where
  "states_frame env d states_file w =
     (if \<not> path_exists w (states_file @ ''.gdf'')
      then bnd (name env ''geopandas'') (\<lambda>_.
           bnd (read_file (states_file @ ''.zip'')) (\<lambda>f.
           bnd (set_state_data f) (\<lambda>_.
           dump_to env d (states_file @ ''.gdf'') f))) w
      else bnd (load_from env (states_file @ ''.gdf'')) set_state_data w)"

definition load_states :: "'g env \<Rightarrow> config \<Rightarrow> (unit, 'g) py" where
  "load_states env config =
     (let states_url = urladdr config @ ''/STATE/'' @ states_filename config;
          states_file = cachedir config @ ''/states''
      in bnd (fetch_archive env states_url (cachedir config) states_file) (\<lambda>_.
         states_frame env (cachedir config) states_file))"

text \<open>
  The search of lines 385 to 398 on the loaded dataset: by point when \<open>contains\<close> is
  true, else by value when \<open>value\<close> is true, else the whole dataset.
\<close>

definition search_states ::
  "'g env \<Rightarrow> string \<Rightarrow> 'g cell option \<Rightarrow> 'g option \<Rightarrow> 'g frame \<Rightarrow> error + 'g frame" where
  "search_states env match value contains sd =
     (if (case contains of None \<Rightarrow> False | Some p \<Rightarrow> geom_bool env p)
      then reset_index (select_rows (row_contains env (the contains)) sd)
      else if (case value of None \<Rightarrow> False | Some v \<Rightarrow> cell_bool (geom_bool env) v)
      then (case getitem_column sd match of Inl e \<Rightarrow> Inl e
            | Inr _ \<Rightarrow> reset_index (select_rows (\<lambda>r. py_eq (cell_of r match) (the value)) sd))
      else Inr sd)"

definition get_states ::
  "'g env \<Rightarrow> string \<Rightarrow> 'g cell option \<Rightarrow> 'g option \<Rightarrow> config \<Rightarrow> ('g frame, 'g) py" where
  "get_states env match value contains config =
     bnd (\<lambda>w. if state_data w = None then load_states env config w else ret () w) (\<lambda>_ w.
     case state_data w of
       None \<Rightarrow> (Inl (TypeError ''NoneType''), w)
     | Some sd \<Rightarrow> (search_states env match value contains sd, w))"

subsection \<open>The zipcode dataset: \<^verbatim>\<open>get_zipcodes\<close>\<close>

text \<open>\<^verbatim>\<open>column.str[0] == digit\<close> and \<^verbatim>\<open>column.str.startswith(z)\<close> on one cell.\<close>

fun first_char_is :: "string \<Rightarrow> 'g cell \<Rightarrow> bool" where
  "first_char_is digit (PyStr (c # cs)) = ([c] = digit)"
| "first_char_is digit _ = False"

fun starts_with :: "string \<Rightarrow> 'g cell \<Rightarrow> bool" where
  "starts_with z (PyStr s) = (take (length z) s = z)"
| "starts_with z _ = False"

text \<open>
  The body of \<^verbatim>\<open>if type(zipcode_data) == type(None):\<close> (lines 407 to 447). After
  the download step, with a zipcode, \<open>digit\<close> is its first character and the cache
  file is \<open>zipcodes<digit>.gdf\<close>: when it is missing, the national archive is parsed
  and stored in the global, then filtered to the rows whose \<open>GEOID10\<close> starts with
  the digit, stored again and pickled (lines 423 to 433). Without a zipcode the
  national dataset is used, with the cache file \<open>zipcodes.gdf\<close> (lines 438 to 447).
\<close>

definition partition_frame :: "'g env \<Rightarrow> string \<Rightarrow> string \<Rightarrow> string \<Rightarrow> (unit, 'g) py" where
  "partition_frame env d zipcode_file digit w =
     (if \<not> path_exists w (zipcode_file @ digit @ ''.gdf'')
      then bnd (name env ''geopandas'') (\<lambda>_.
           bnd (read_file (zipcode_file @ ''.zip'')) (\<lambda>f.
           bnd (set_zipcode_data f) (\<lambda>_.
           bnd (lift (getitem_column f ''GEOID10'')) (\<lambda>_.
           let f' = select_rows (\<lambda>r. first_char_is digit (cell_of r ''GEOID10'')) f in
           bnd (set_zipcode_data f') (\<lambda>_.
           dump_to env d (zipcode_file @ digit @ ''.gdf'') f'))))) w
      else bnd (load_from env (zipcode_file @ digit @ ''.gdf'')) set_zipcode_data w)"

definition national_frame :: "'g env \<Rightarrow> string \<Rightarrow> string \<Rightarrow> (unit, 'g) py" where
  "national_frame env d zipcode_file w =
     (if \<not> path_exists w (zipcode_file @ ''.gdf'')
      then bnd (name env ''geopandas'') (\<lambda>_.
           bnd (read_file (zipcode_file @ ''.zip'')) (\<lambda>f.
           bnd (set_zipcode_data f) (\<lambda>_.
           dump_to env d (zipcode_file @ ''.gdf'') f))) w
      else bnd (load_from env (zipcode_file @ ''.gdf'')) set_zipcode_data w)"

definition load_zipcodes :: "'g env \<Rightarrow> string option \<Rightarrow> config \<Rightarrow> (unit, 'g) py" where
  "load_zipcodes env zipcode config =
     (let zipcode_url = urladdr config @ ''/ZCTA5/'' @ zipcode_filename config;
          zipcode_file = cachedir config @ ''/zipcodes''
      in bnd (fetch_archive env zipcode_url (cachedir config) zipcode_file) (\<lambda>_.
         case zipcode of
           Some z \<Rightarrow>
             (case z of
                [] \<Rightarrow> raise IndexError
              | c # _ \<Rightarrow> partition_frame env (cachedir config) zipcode_file [c])
         | None \<Rightarrow> national_frame env (cachedir config) zipcode_file))"

text \<open>The search of lines 449 to 465 on the loaded dataset.\<close>

definition search_zipcodes ::
  "'g env \<Rightarrow> string option \<Rightarrow> 'g option \<Rightarrow> 'g frame \<Rightarrow> error + 'g frame" where
  "search_zipcodes env zipcode contains zd =
     (if (case contains of None \<Rightarrow> False | Some p \<Rightarrow> geom_bool env p)
      then reset_index (select_rows (row_contains env (the contains)) zd)
      else if (case zipcode of None \<Rightarrow> False | Some z \<Rightarrow> z \<noteq> [])
      then (case getitem_column zd ''GEOID10'' of Inl e \<Rightarrow> Inl e
            | Inr _ \<Rightarrow>
                reset_index (select_rows (\<lambda>r. starts_with (the zipcode) (cell_of r ''GEOID10'')) zd))
      else Inr zd)"

definition get_zipcodes ::
  "'g env \<Rightarrow> string option \<Rightarrow> 'g option \<Rightarrow> config \<Rightarrow> ('g frame, 'g) py" where
  "get_zipcodes env zipcode contains config =
     bnd (\<lambda>w. if zipcode_data w = None then load_zipcodes env zipcode config w else ret () w) (\<lambda>_ w.
     case zipcode_data w of
       None \<Rightarrow> (Inl (TypeError ''NoneType''), w)
     | Some zd \<Rightarrow> (search_zipcodes env zipcode contains zd, w))"

subsection \<open>The pipeline: \<^verbatim>\<open>main\<close>\<close>

text \<open>
  The dictionary \<^verbatim>\<open>state_zipcode0\<close>: the leading ZIP digits of each state. The
  source lists \<open>DC\<close> twice with the same value.
\<close>

definition state_zipcode0 :: "(string \<times> string) list" where
  "state_zipcode0 =
     [(''AK'', ''9''), (''AL'', ''3''), (''AR'', ''7''), (''AZ'', ''8''), (''CA'', ''9''),
      (''CO'', ''8''), (''CT'', ''0''), (''DC'', ''2''), (''DC'', ''2''), (''DE'', ''1''),
      (''FL'', ''3''), (''GA'', ''3''), (''HI'', ''9''), (''IA'', ''56''), (''ID'', ''8''),
      (''IL'', ''6''), (''IN'', ''4''), (''KS'', ''6''), (''KY'', ''4''), (''LA'', ''7''),
      (''MA'', ''0''), (''MD'', ''2''), (''ME'', ''0''), (''MI'', ''4''), (''MN'', ''5''),
      (''MO'', ''6''), (''MS'', ''3''), (''MT'', ''5''), (''NC'', ''2''), (''ND'', ''5''),
      (''NE'', ''6''), (''NH'', ''3''), (''NJ'', ''0''), (''NM'', ''8''), (''NV'', ''8''),
      (''NY'', ''01''), (''OH'', ''4''), (''OK'', ''7''), (''OR'', ''9''), (''PA'', ''1''),
      (''PR'', ''0''), (''RI'', ''0''), (''SC'', ''2''), (''SD'', ''5''), (''TN'', ''3''),
      (''TX'', ''78''), (''UT'', ''8''), (''VA'', ''2''), (''VT'', ''0''), (''WA'', ''9''),
      (''WI'', ''5''), (''WV'', ''2''), (''WY'', ''8'')]"

text \<open>\<^verbatim>\<open>state_zipcode0[state]\<close>: KeyError for a state the table does not list.\<close>

definition lookup_digits :: "'g cell \<Rightarrow> error + string" where
  "lookup_digits state =
     (case state of
        PyStr s \<Rightarrow> (case map_of state_zipcode0 s of Some ds \<Rightarrow> Inr ds | None \<Rightarrow> Inl (KeyError s))
      | _ \<Rightarrow> Inl (KeyError ''state''))"

text \<open>\<^verbatim>\<open>float(x)\<close> on a cell.\<close>

definition py_float :: "'g env \<Rightarrow> 'g cell \<Rightarrow> error + pyfloat" where
  "py_float env c =
     (case c of
        PyFloat x \<Rightarrow> Inr x
      | PyInt i \<Rightarrow> Inr (Fin (of_int i))
      | PyStr s \<Rightarrow> (case parse_float env s of Some x \<Rightarrow> Inr x | None \<Rightarrow> Inl (ValueError s))
      | PyGeom g \<Rightarrow> Inl (TypeError ''float''))"

text \<open>
  \<^verbatim>\<open>pos = Point(float(row.loc['longitude']), float(row.loc['latitude']))\<close>: the
  longitude is converted first.
\<close>

definition row_point :: "'g env \<Rightarrow> 'g row \<Rightarrow> error + 'g" where
  "row_point env row =
     (case py_float env (cell_of row ''longitude'') of Inl e \<Rightarrow> Inl e
      | Inr x \<Rightarrow>
         (case py_float env (cell_of row ''latitude'') of Inl e \<Rightarrow> Inl e
          | Inr y \<Rightarrow> Inr (Point env x y)))"

text \<open>\<^verbatim>\<open>series[0]\<close> on a series labelled from 0: KeyError when it is empty.\<close>

definition getitem_label :: "(nat \<times> 'g cell) list \<Rightarrow> nat \<Rightarrow> error + 'g cell" where
  "getitem_label s l = (case map_of s l of Some v \<Rightarrow> Inr v | None \<Rightarrow> Inl (KeyError ''0''))"

text \<open>
  The body of the loop of the state group (lines 291 to 297), for one row: the lookup
  by the row's \<open>state\<close> when the data has that column, else by the row's point when
  it has both coordinate columns, else the exception. Both calls leave \<open>match\<close> and
  \<open>config\<close> at their defaults, \<open>STUSPS\<close> and \<open>CONFIG\<close>.
\<close>

definition state_row :: "'g env \<Rightarrow> 'g frame \<Rightarrow> 'g row \<Rightarrow> ('g frame, 'g) py" where
  "state_row env data row =
     (if ''state'' \<in> set (columns data)
      then get_states env ''STUSPS'' (Some (cell_of row ''state'')) None (CONFIG env)
      else if ''latitude'' \<in> set (columns data) \<and> ''longitude'' \<in> set (columns data)
      then bnd (lift (row_point env row)) (\<lambda>pos.
           get_states env ''STUSPS'' None (Some pos) (CONFIG env))
      else raise (Exception ''unable to process state data without latitude and longitude columns''))"

text \<open>The loop \<^verbatim>\<open>for id, row in data.iterrows(): result.append(...)\<close>.\<close>

fun state_rows :: "'g env \<Rightarrow> 'g frame \<Rightarrow> (nat \<times> 'g row) list \<Rightarrow> ('g frame list, 'g) py" where
  "state_rows env data [] = ret []"
| "state_rows env data ((l, row) # rest) =
     bnd (state_row env data row) (\<lambda>r.
     bnd (state_rows env data rest) (\<lambda>rs.
     ret (r # rs)))"

text \<open>
  \<^verbatim>\<open>state = get_states(contains=pos)['STUSPS'][0]\<close> (line 319): the \<open>STUSPS\<close> of the
  first state whose polygon contains the point.
\<close>

definition lookup_state :: "'g env \<Rightarrow> 'g \<Rightarrow> ('g cell, 'g) py" where
  "lookup_state env pos =
     bnd (get_states env ''STUSPS'' None (Some pos) (CONFIG env)) (\<lambda>st.
     bnd (lift (getitem_column st ''STUSPS'')) (\<lambda>col.
     lift (getitem_label col 0)))"

text \<open>
  \<^verbatim>\<open>for digit in state_zipcode0[state]: result.append(get_zipcodes(digit, contains=pos))\<close>
  (lines 321 and 322), once the digits are known.
\<close>

fun zipcode_digits :: "'g env \<Rightarrow> 'g \<Rightarrow> string \<Rightarrow> ('g frame list, 'g) py" where
  "zipcode_digits env pos [] = ret []"
| "zipcode_digits env pos (digit # rest) =
     bnd (get_zipcodes env (Some [digit]) (Some pos) (CONFIG env)) (\<lambda>r.
     bnd (zipcode_digits env pos rest) (\<lambda>rs.
     ret (r # rs)))"

text \<open>The body of the loop of the zipcode group (lines 318 to 322), for one row.\<close>

definition zipcode_row :: "'g env \<Rightarrow> 'g row \<Rightarrow> ('g frame list, 'g) py" where
  "zipcode_row env row =
     bnd (lift (row_point env row)) (\<lambda>pos.
     bnd (lookup_state env pos) (\<lambda>state.
     bnd (lift (lookup_digits state)) (\<lambda>digits.
     zipcode_digits env pos digits)))"

fun zipcode_rows :: "'g env \<Rightarrow> (nat \<times> 'g row) list \<Rightarrow> ('g frame list, 'g) py" where
  "zipcode_rows env [] = ret []"
| "zipcode_rows env ((l, row) # rest) =
     bnd (zipcode_row env row) (\<lambda>rs.
     bnd (zipcode_rows env rest) (\<lambda>rss.
     ret (rs @ rss)))"

text \<open>
  The requested fields (lines 299 to 302): all columns of the result for \<open>*\<close>, else
  the comma-separated names.
\<close>

definition fieldlist :: "string \<Rightarrow> 'g frame \<Rightarrow> string list" where
  "fieldlist spec result = (if spec = ''*'' then columns result else split_on CHR '','' spec)"

text \<open>
  The merge loop (lines 303 to 306 and 328 to 331): every field is looked up in the
  result and assigned to the data in turn; a field the result lacks raises, and the
  fields assigned before it stay assigned. \<open>kind\<close> is \<open>state\<close> or \<open>zipcode\<close>, for
  the message.
\<close>

definition not_found :: "string \<Rightarrow> string \<Rightarrow> error" where
  "not_found kind field =
     Exception (''field '' @ [CHR 0x27] @ field @ [CHR 0x27] @ '' is not found in '' @ kind @ '' data'')"

fun assign_fields ::
  "string \<Rightarrow> 'g frame \<Rightarrow> string list \<Rightarrow> 'g frame \<Rightarrow> error option \<times> 'g frame" where
  "assign_fields kind result [] data = (None, data)"
| "assign_fields kind result (field # rest) data =
     (if field \<notin> set (columns result) then (Some (not_found kind field), data)
      else assign_fields kind result rest (setitem data field (series result field)))"

text \<open>\<^verbatim>\<open>result = pandas.concat(result, ignore_index=True)\<close>: the name is read first.\<close>

definition pandas_concat :: "'g env \<Rightarrow> 'g frame list \<Rightarrow> ('g frame, 'g) py" where
  "pandas_concat env fs = bnd (name env ''pandas'') (\<lambda>_. lift (concat_frames fs))"

text \<open>
  A group of \<^verbatim>\<open>main\<close> works on the DataFrame object it was given and changes it in
  place. Its outcome is \<open>None\<close> when it ran to its end and \<open>Some e\<close> when it raised
  \<open>e\<close>; with it come the content of the DataFrame object and the process state at
  that moment.
\<close>

type_synonym 'g run = "error option \<times> 'g frame \<times> 'g world"

text \<open>The state group (lines 285 to 306).\<close>

definition state_group :: "'g env \<Rightarrow> 'g frame \<Rightarrow> options \<Rightarrow> 'g world \<Rightarrow> 'g run" where
  "state_group env data opts w =
     (if state_fields opts = [] then (None, data, w)
      else (case bnd (state_rows env data (rws data)) (pandas_concat env) w of
              (Inl e, w') \<Rightarrow> (Some e, data, w')
            | (Inr result, w') \<Rightarrow>
                (case assign_fields ''state'' result (fieldlist (state_fields opts) result) data of
                   (r, data') \<Rightarrow> (r, data', w'))))"

text \<open>The zipcode group (lines 308 to 331).\<close>

definition zipcode_group :: "'g env \<Rightarrow> 'g frame \<Rightarrow> options \<Rightarrow> 'g world \<Rightarrow> 'g run" where
  "zipcode_group env data opts w =
     (if zipcode_fields opts = [] then (None, data, w)
      else if ''latitude'' \<notin> set (columns data) \<or> ''longitude'' \<notin> set (columns data)
      then (Some (Exception ''unable to process zipcode data without latitude and longitude columns''),
            data, w)
      else (case bnd (zipcode_rows env (rws data)) (pandas_concat env) w of
              (Inl e, w') \<Rightarrow> (Some e, data, w')
            | (Inr result, w') \<Rightarrow>
                (case assign_fields ''zipcode'' result (fieldlist (zipcode_fields opts) result) data of
                   (r, data') \<Rightarrow> (r, data', w'))))"

text \<open>
  The module's \<^verbatim>\<open>warning(msg)\<close>, the default of the parameter \<open>warning\<close> of
  \<^verbatim>\<open>main\<close>: a line on stderr when \<^verbatim>\<open>CONFIG["warning"]\<close> is true.
\<close>

definition warning :: "'g env \<Rightarrow> string \<Rightarrow> 'g world \<Rightarrow> 'g world" where
  "warning env msg w =
     (if warning_on (CONFIG env) then w\<lparr>stderr := stderr w @ [''WARNING [census]: '' @ msg]\<rparr>
      else w)"

text \<open>The tract group (lines 333 to 338).\<close>

definition tract_group :: "'g env \<Rightarrow> 'g frame \<Rightarrow> options \<Rightarrow> 'g world \<Rightarrow> 'g run" where
  "tract_group env data opts w =
     (if tract_fields opts \<noteq> []
      then (None, data, warning env ''census tract is not implemented yet'' w)
      else (None, data, w))"

text \<open>
  \<^verbatim>\<open>main(data, options, config)\<close>: the cache directory of \<open>config\<close> is created, then the
  three groups run in turn on the same DataFrame object, each only when its option is a
  non-empty string. The outcome \<open>None\<close> is \<^verbatim>\<open>return data\<close>: the caller gets the
  object it passed, whose content is the frame of the result.
\<close>

definition main :: "'g env \<Rightarrow> 'g frame \<Rightarrow> options \<Rightarrow> config \<Rightarrow> 'g world \<Rightarrow> 'g run" where
  "main env data opts config w =
     (case makedirs (cachedir config) w of
        (Inl e, w0) \<Rightarrow> (Some e, data, w0)
      | (Inr _, w0) \<Rightarrow>
         (case state_group env data opts w0 of
            (Some e, d1, w1) \<Rightarrow> (Some e, d1, w1)
          | (None, d1, w1) \<Rightarrow>
             (case zipcode_group env d1 opts w1 of
                (Some e, d2, w2) \<Rightarrow> (Some e, d2, w2)
              | (None, d2, w2) \<Rightarrow> tract_group env d2 opts w2)))"

text \<open>
  What the model leaves out. The options are strings (\<^verbatim>\<open>load_config\<close> can also store
  \<open>True\<close>, on which \<^verbatim>\<open>split\<close> would fail). Index labels are natural numbers, as
  \<^verbatim>\<open>pd.read_csv\<close> gives them. A path is a file, a directory or nothing: there are no
  permissions, links or full disks, and the cache files lie directly in the cache
  directory. The parameter \<open>warning\<close> of \<^verbatim>\<open>main\<close> is taken at its default, the
  module's function. The functions \<^verbatim>\<open>load_config\<close>, \<^verbatim>\<open>error\<close>, \<^verbatim>\<open>verbose\<close> and
  \<^verbatim>\<open>debug\<close> and the table \<^verbatim>\<open>state_tract_codes\<close> are not called or read by the
  three functions modelled here.
\<close>

subsection \<open>The defaults of the module and a small world to run it in\<close>

text \<open>\<^verbatim>\<open>CONFIG\<close> and \<^verbatim>\<open>OPTIONS\<close> as the module sets them (lines 68 to 91).\<close>

definition CONFIG_default :: config where
  "CONFIG_default =
     \<lparr>urladdr = ''https://www2.census.gov/geo/tiger/TIGER2020'',
      cachedir = ''/usr/local/share/gridlabd/geodata/census'',
      states_filename = ''tl_2020_us_state.zip'',
      zipcode_filename = ''tl_2020_us_zcta510.zip'',
      warning_on = True\<rparr>"

definition OPTIONS_default :: options where
  "OPTIONS_default =
     \<lparr>state_fields = ''STUSPS'', zipcode_fields = ''ZCTA5CE10'', tract_fields = []\<rparr>"

text \<open>
  A toy geometry for the examples: points, and open axis-parallel rectangles given by
  two corners. A rectangle contains the points strictly inside it.
\<close>

datatype shape = Dot pyfloat pyfloat | Rect real real real real

fun shape_contains :: "shape \<Rightarrow> shape \<Rightarrow> bool" where
  "shape_contains (Rect x0 y0 x1 y1) (Dot (Fin x) (Fin y)) =
     (x0 < x \<and> x < x1 \<and> y0 < y \<and> y < y1)"
| "shape_contains _ _ = False"

text \<open>
  Three states, of which \<open>TX\<close> overlaps \<open>CA\<close> (as invalid input data may), and
  three ZIP code areas: \<open>10001\<close> and \<open>01001\<close> tile \<open>NY\<close>, whose ZIP codes start
  with 0 or 1, and \<open>90210\<close> covers \<open>CA\<close>.
\<close>

definition state_feature :: "string \<Rightarrow> shape \<Rightarrow> shape row" where
  "state_feature s g = [(''STUSPS'', PyStr s), (''geometry'', PyGeom g)]"

definition demo_states :: "shape frame" where
  "demo_states =
     \<lparr>columns = [''STUSPS'', ''geometry''],
      rws = [(0, state_feature ''CA'' (Rect 0 0 10 10)),
             (1, state_feature ''NY'' (Rect 20 0 30 10)),
             (2, state_feature ''TX'' (Rect 8 0 18 10))]\<rparr>"

definition zcta_feature :: "string \<Rightarrow> shape \<Rightarrow> shape row" where
  "zcta_feature z g = [(''ZCTA5CE10'', PyStr z), (''GEOID10'', PyStr z), (''geometry'', PyGeom g)]"

definition demo_zipcodes :: "shape frame" where
  "demo_zipcodes =
     \<lparr>columns = [''ZCTA5CE10'', ''GEOID10'', ''geometry''],
      rws = [(0, zcta_feature ''01001'' (Rect 25 0 30 10)),
             (1, zcta_feature ''10001'' (Rect 20 0 25 10)),
             (2, zcta_feature ''90210'' (Rect 0 0 10 10))]\<rparr>"

text \<open>The partition of \<open>demo_zipcodes\<close> for the digit 0, as \<^verbatim>\<open>get_zipcodes\<close> filters it.\<close>

definition demo_partition0 :: "shape frame" where
  "demo_partition0 =
     \<lparr>columns = [''ZCTA5CE10'', ''GEOID10'', ''geometry''],
      rws = [(0, zcta_feature ''01001'' (Rect 25 0 30 10))]\<rparr>"

text \<open>A network that serves the two archives at the addresses of \<open>CONFIG_default\<close>.\<close>

definition demo_net :: "string \<Rightarrow> shape response" where
  "demo_net url =
     (if url = ''https://www2.census.gov/geo/tiger/TIGER2020/STATE/tl_2020_us_state.zip''
      then Body (Shapefile demo_states)
      else if url = ''https://www2.census.gov/geo/tiger/TIGER2020/ZCTA5/tl_2020_us_zcta510.zip''
      then Body (Shapefile demo_zipcodes)
      else Unreachable)"

text \<open>A network whose responses break while they are read.\<close>

definition broken_net :: "string \<Rightarrow> shape response" where
  "broken_net url = Broken"

text \<open>
  The environment with a given namespace and network: \<open>module_bound\<close> is the module
  as it is, \<open>all_bound\<close> a namespace in which the missing imports are bound too.
\<close>

definition all_bound :: "string \<Rightarrow> bool" where
  "all_bound n = True"

definition demo_env :: "(string \<Rightarrow> bool) \<Rightarrow> (string \<Rightarrow> shape response) \<Rightarrow> config \<Rightarrow> shape env" where
  "demo_env b net cfg =
     \<lparr>bound = b, urlopen = net, Point = Dot, geom_contains = shape_contains,
      geom_bool = (\<lambda>g. True), parse_float = (\<lambda>s. None), CONFIG = cfg\<rparr>"

text \<open>
  A process that has loaded nothing, on a file system with an empty cache directory,
  and the same process with given datasets already in its two globals.
\<close>

definition fresh :: "shape world" where
  "fresh =
     \<lparr>state_data = None, zipcode_data = None, files = (\<lambda>p. None),
      dirs = {''/usr/local/share/gridlabd/geodata/census''}, requests = [], stderr = []\<rparr>"

definition loaded :: "shape frame \<Rightarrow> shape frame \<Rightarrow> shape world" where
  "loaded sd zd = fresh\<lparr>state_data := Some sd, zipcode_data := Some zd\<rparr>"

text \<open>Record sets: one record with coordinates, one with a state, one with neither.\<close>

definition record_at :: "real \<Rightarrow> real \<Rightarrow> shape frame" where
  "record_at x y =
     \<lparr>columns = [''latitude'', ''longitude''],
      rws = [(0, [(''latitude'', PyFloat (Fin y)), (''longitude'', PyFloat (Fin x))])]\<rparr>"

definition record_in :: "string \<Rightarrow> shape frame" where
  "record_in s = \<lparr>columns = [''state''], rws = [(0, [(''state'', PyStr s)])]\<rparr>"

definition record_other :: "shape frame" where
  "record_other = \<lparr>columns = [''name''], rws = [(0, [(''name'', PyStr ''x'')])]\<rparr>"

definition no_records :: "shape frame" where
  "no_records = \<lparr>columns = [''name''], rws = []\<rparr>"


subsection \<open>Notions used in the statements and proofs\<close>








section \<open>Properties\<close>

subsection \<open>Unfolding the model\<close>

text \<open>
  The definitions of the model and of the example world, for evaluating a closed run
  with the simplifier.
\<close>

lemmas run_defs = main_def state_group_def zipcode_group_def tract_group_def warning_def
  pandas_concat_def not_found_def fieldlist_def zipcode_row_def
  lookup_state_def state_row_def getitem_label_def row_point_def
  py_float_def lookup_digits_def state_zipcode0_def get_zipcodes_def search_zipcodes_def
  load_zipcodes_def partition_frame_def national_frame_def get_states_def search_states_def
  load_states_def states_frame_def fetch_archive_def row_contains_def
  getitem_column_def set_state_data_def set_zipcode_data_def load_from_def dump_to_def download_def
  pickle_load_def read_file_def url_open_def os_remove_def open_rb_def write_file_def open_wb_def
  makedirs_def path_exists_def name_def lift_def bnd_def raise_def ret_def module_bound_def
  module_names_def setitem_def concat_frames_def uniq_def reset_index_def relabel_def select_rows_def
  series_def cell_of_def Let_def

lemmas demo_defs = CONFIG_default_def OPTIONS_default_def state_feature_def demo_states_def
  zcta_feature_def demo_zipcodes_def demo_partition0_def demo_net_def broken_net_def demo_env_def
  fresh_def loaded_def all_bound_def record_at_def record_in_def record_other_def no_records_def

subsection \<open>Sequencing\<close>

lemma bnd_ret [simp]: "bnd (ret a) f w = f a w"
  by (simp add: bnd_def ret_def)

lemma bnd_raise [simp]: "bnd (raise e) f w = (Inl e, w)"
  by (simp add: bnd_def raise_def)



subsection \<open>Which steps use the network\<close>














subsection \<open>The accessors once a dataset is loaded\<close>

text \<open>
  With a dataset in the global the accessor skips the whole loading block: it searches
  that dataset and leaves the process as it is.
\<close>

lemma get_states_loaded:
  "state_data w = Some sd \<Longrightarrow>
   get_states env m v c cfg w = (search_states env m v c sd, w)"
  by (simp add: get_states_def bnd_def ret_def)

lemma get_zipcodes_loaded:
  "zipcode_data w = Some zd \<Longrightarrow>
   get_zipcodes env z c cfg w = (search_zipcodes env z c zd, w)"
  by (simp add: get_zipcodes_def bnd_def ret_def)





subsection \<open>Memoisation of the datasets\<close>



subsection \<open>The containment lookup\<close>

lemma reset_index_plain:
  "''index'' \<notin> set (columns f) \<Longrightarrow>
   reset_index f =
     Inr \<lparr>columns = ''index'' # columns f,
          rws = relabel (map (\<lambda>(l, r). (''index'', PyInt (int l)) # r) (rws f))\<rparr>"
  by (simp add: reset_index_def Let_def)

lemma search_states_contains:
  "geom_bool env p \<Longrightarrow>
   search_states env m v (Some p) sd = reset_index (select_rows (row_contains env p) sd)"
  by (simp add: search_states_def)

lemma search_zipcodes_contains:
  "geom_bool env p \<Longrightarrow>
   search_zipcodes env z (Some p) zd = reset_index (select_rows (row_contains env p) zd)"
  by (simp add: search_zipcodes_def)

text \<open>
  Claim C2, as amended. On a loaded dataset that has no column \<open>index\<close>, the lookup by
  a point never raises: it returns the frame of all rows whose polygon contains the
  point, in dataset order, each with its attributes and its old label in the new
  column \<open>index\<close>, relabelled from 0. So one containing polygon gives that polygon's
  row, none gives a frame without rows, and several give all of them, the first in
  dataset order first. The process is left as it is. This holds for both accessors.
\<close>

theorem containment_lookup:
  "(state_data w = Some sd \<and> geom_bool env p \<and> ''index'' \<notin> set (columns sd) \<longrightarrow>
      get_states env m v (Some p) cfg w =
        (Inr \<lparr>columns = ''index'' # columns sd,
              rws = relabel (map (\<lambda>(l, r). (''index'', PyInt (int l)) # r)
                      (filter (\<lambda>(l, r). row_contains env p r) (rws sd)))\<rparr>, w)) \<and>
   (zipcode_data w = Some zd \<and> geom_bool env p \<and> ''index'' \<notin> set (columns zd) \<longrightarrow>
      get_zipcodes env z (Some p) cfg w =
        (Inr \<lparr>columns = ''index'' # columns zd,
              rws = relabel (map (\<lambda>(l, r). (''index'', PyInt (int l)) # r)
                      (filter (\<lambda>(l, r). row_contains env p r) (rws zd)))\<rparr>, w))"
  by (simp add: get_states_loaded get_zipcodes_loaded search_states_contains
      search_zipcodes_contains reset_index_plain select_rows_def)

text \<open>
  The example: the point (5, 5) lies in \<open>CA\<close> only and in the ZIP code area \<open>90210\<close>
  only; each lookup returns that one row.
\<close>

theorem containment_lookup_witness:
  "get_states (demo_env module_bound demo_net CONFIG_default) ''STUSPS'' None
     (Some (Dot (Fin 5) (Fin 5))) CONFIG_default (loaded demo_states demo_zipcodes) =
     (Inr \<lparr>columns = [''index'', ''STUSPS'', ''geometry''],
           rws = [(0, (''index'', PyInt 0) # state_feature ''CA'' (Rect 0 0 10 10))]\<rparr>,
      loaded demo_states demo_zipcodes) \<and>
   get_zipcodes (demo_env module_bound demo_net CONFIG_default) (Some ''9'')
     (Some (Dot (Fin 5) (Fin 5))) CONFIG_default (loaded demo_states demo_zipcodes) =
     (Inr \<lparr>columns = [''index'', ''ZCTA5CE10'', ''GEOID10'', ''geometry''],
           rws = [(0, (''index'', PyInt 2) # zcta_feature ''90210'' (Rect 0 0 10 10))]\<rparr>,
      loaded demo_states demo_zipcodes)"
proof -
  let ?E = "demo_env module_bound demo_net CONFIG_default"
  let ?W = "loaded demo_states demo_zipcodes"
  let ?p = "Dot (Fin 5) (Fin 5)"
  have s: "state_data ?W = Some demo_states \<and> geom_bool ?E ?p \<and>
           ''index'' \<notin> set (columns demo_states)"
    by (simp add: demo_defs)
  have z: "zipcode_data ?W = Some demo_zipcodes \<and> geom_bool ?E ?p \<and>
           ''index'' \<notin> set (columns demo_zipcodes)"
    by (simp add: demo_defs)
  from containment_lookup [THEN conjunct1, rule_format, OF s]
  have "get_states ?E ''STUSPS'' None (Some ?p) CONFIG_default ?W =
     (Inr \<lparr>columns = [''index'', ''STUSPS'', ''geometry''],
           rws = [(0, (''index'', PyInt 0) # state_feature ''CA'' (Rect 0 0 10 10))]\<rparr>, ?W)"
    by (simp add: demo_defs row_contains_def cell_of_def relabel_def)
  moreover
  from containment_lookup [THEN conjunct2, rule_format, OF z]
  have "get_zipcodes ?E (Some ''9'') (Some ?p) CONFIG_default ?W =
     (Inr \<lparr>columns = [''index'', ''ZCTA5CE10'', ''GEOID10'', ''geometry''],
           rws = [(0, (''index'', PyInt 2) # zcta_feature ''90210'' (Rect 0 0 10 10))]\<rparr>, ?W)"
    by (simp add: demo_defs row_contains_def cell_of_def relabel_def)
  ultimately show ?thesis by blast
qed

text \<open>
  Against claim C2 as stated: the point (50, 50) lies outside every state, and the
  lookup returns a frame without rows and raises nothing; the point (9, 5) lies in
  \<open>CA\<close> and in \<open>TX\<close>, and the lookup returns both rows, not the first alone.
\<close>

theorem containment_lookup_counterexample:
  "get_states (demo_env module_bound demo_net CONFIG_default) ''STUSPS'' None
     (Some (Dot (Fin 50) (Fin 50))) CONFIG_default (loaded demo_states demo_zipcodes) =
     (Inr \<lparr>columns = [''index'', ''STUSPS'', ''geometry''], rws = []\<rparr>,
      loaded demo_states demo_zipcodes) \<and>
   get_states (demo_env module_bound demo_net CONFIG_default) ''STUSPS'' None
     (Some (Dot (Fin 9) (Fin 5))) CONFIG_default (loaded demo_states demo_zipcodes) =
     (Inr \<lparr>columns = [''index'', ''STUSPS'', ''geometry''],
           rws = [(0, (''index'', PyInt 0) # state_feature ''CA'' (Rect 0 0 10 10)),
                  (1, (''index'', PyInt 2) # state_feature ''TX'' (Rect 8 0 18 10))]\<rparr>,
      loaded demo_states demo_zipcodes)"
  by (simp add: run_defs demo_defs)

subsection \<open>Resolving the state of a point\<close>

lemma relabel_Nil [simp]: "relabel [] = []"
  by (simp add: relabel_def)

lemma map_of_relabel_Cons: "map_of (relabel (x # xs)) 0 = Some x"
  by (simp add: relabel_def upt_conv_Cons del: upt_Suc)

text \<open>
  Claim C5, as amended. On a loaded state dataset with the column \<open>STUSPS\<close> (and no
  column \<open>index\<close>), the state of a point is the \<open>STUSPS\<close> of the first row in
  dataset order whose polygon contains the point, whether or not other rows contain
  it too; when no row contains it the lookup raises KeyError.
\<close>

theorem lookup_state_first_match:
  "state_data w = Some sd \<and> geom_bool env p \<and> ''index'' \<notin> set (columns sd) \<and>
   ''STUSPS'' \<in> set (columns sd) \<longrightarrow>
     lookup_state env p w =
       (case filter (\<lambda>(l, r). row_contains env p r) (rws sd) of
          [] \<Rightarrow> (Inl (KeyError ''0''), w)
        | (l, r) # rest \<Rightarrow> (Inr (cell_of r ''STUSPS''), w))"
proof (intro impI, elim conjE)
  assume a: "state_data w = Some sd" "geom_bool env p" "''index'' \<notin> set (columns sd)"
    "''STUSPS'' \<in> set (columns sd)"
  let ?ms = "filter (\<lambda>(l, r). row_contains env p r) (rws sd)"
  let ?res = "\<lparr>columns = ''index'' # columns sd,
              rws = relabel (map (\<lambda>(l, r). (''index'', PyInt (int l)) # r) ?ms)\<rparr>"
  have g: "get_states env ''STUSPS'' None (Some p) (CONFIG env) w = (Inr ?res, w)"
    using a by (simp add: get_states_loaded search_states_contains reset_index_plain select_rows_def)
  have l: "lookup_state env p w = (getitem_label (series ?res ''STUSPS'') 0, w)"
    using a by (simp add: lookup_state_def g bnd_def lift_def getitem_column_def)
  show "lookup_state env p w =
       (case ?ms of [] \<Rightarrow> (Inl (KeyError ''0''), w)
        | (l, r) # rest \<Rightarrow> (Inr (cell_of r ''STUSPS''), w))"
  proof (cases ?ms)
    case Nil
    then show ?thesis by (simp add: l series_def getitem_label_def)
  next
    case (Cons x xs)
    obtain l0 r0 where x: "x = (l0, r0)" by (cases x)
    have "map_of (series ?res ''STUSPS'') 0 = Some (cell_of r0 ''STUSPS'')"
      by (simp add: series_def Cons x relabel_def upt_conv_Cons cell_of_def del: upt_Suc)
    then show ?thesis by (simp add: l Cons x getitem_label_def)
  qed
qed

text \<open>
  The example: (25, 5) lies in \<open>NY\<close> only, which is found; (50, 50) lies in no state,
  and the lookup raises.
\<close>

theorem lookup_state_first_match_witness:
  "lookup_state (demo_env module_bound demo_net CONFIG_default) (Dot (Fin 25) (Fin 5))
     (loaded demo_states demo_zipcodes) = (Inr (PyStr ''NY''), loaded demo_states demo_zipcodes) \<and>
   lookup_state (demo_env module_bound demo_net CONFIG_default) (Dot (Fin 50) (Fin 50))
     (loaded demo_states demo_zipcodes) = (Inl (KeyError ''0''), loaded demo_states demo_zipcodes)"
proof -
  let ?E = "demo_env module_bound demo_net CONFIG_default"
  let ?W = "loaded demo_states demo_zipcodes"
  have h: "state_data ?W = Some demo_states \<and> geom_bool ?E p \<and>
           ''index'' \<notin> set (columns demo_states) \<and> ''STUSPS'' \<in> set (columns demo_states)" for p
    by (simp add: demo_defs)
  from lookup_state_first_match [rule_format, OF h, of "Dot (Fin 25) (Fin 5)"]
  have "lookup_state ?E (Dot (Fin 25) (Fin 5)) ?W = (Inr (PyStr ''NY''), ?W)"
    by (simp add: demo_defs row_contains_def cell_of_def)
  moreover
  from lookup_state_first_match [rule_format, OF h, of "Dot (Fin 50) (Fin 50)"]
  have "lookup_state ?E (Dot (Fin 50) (Fin 50)) ?W = (Inl (KeyError ''0''), ?W)"
    by (simp add: demo_defs row_contains_def cell_of_def)
  ultimately show ?thesis by blast
qed

text \<open>
  Against claim C5 as stated: the point (9, 5) lies in \<open>CA\<close> and in \<open>TX\<close>. Its state
  resolves to \<open>CA\<close> without any error, and with the imports bound the whole run
  returns, with the ZIP code area looked up under the digits of \<open>CA\<close>.
\<close>

theorem lookup_state_counterexample:
  "lookup_state (demo_env module_bound demo_net CONFIG_default) (Dot (Fin 9) (Fin 5))
     (loaded demo_states demo_zipcodes) = (Inr (PyStr ''CA''), loaded demo_states demo_zipcodes) \<and>
   fst (main (demo_env all_bound demo_net CONFIG_default) (record_at 9 5) OPTIONS_default
          CONFIG_default fresh) = None \<and>
   fst (snd (main (demo_env all_bound demo_net CONFIG_default) (record_at 9 5) OPTIONS_default
          CONFIG_default fresh)) =
     \<lparr>columns = [''latitude'', ''longitude'', ''STUSPS'', ''ZCTA5CE10''],
      rws = [(0, [(''latitude'', PyFloat (Fin 5)), (''longitude'', PyFloat (Fin 9)),
                  (''STUSPS'', PyStr ''CA''), (''ZCTA5CE10'', PyStr ''90210'')])]\<rparr>"
  by (simp add: run_defs demo_defs)

subsection \<open>Merging a result into the data\<close>


lemma cell_of_update:
  "cell_of (AList.update c v r) c' = (if c' = c then v else cell_of r c')"
  by (simp add: cell_of_def update_conv)



subsection \<open>A state that matches no row\<close>





lemma set_uniq [simp]: "set (uniq xs) = set xs"
  by (simp add: uniq_def)





subsection \<open>The tract group\<close>

lemma state_group_tract [simp]:
  "state_group env data (opts\<lparr>tract_fields := t\<rparr>) w = state_group env data opts w"
  by (simp add: state_group_def cong: prod.case_cong sum.case_cong)

lemma zipcode_group_tract [simp]:
  "zipcode_group env data (opts\<lparr>tract_fields := t\<rparr>) w = zipcode_group env data opts w"
  by (simp add: zipcode_group_def cong: prod.case_cong sum.case_cong)

text \<open>
  Claim C9, as amended. A run with \<open>tract_fields\<close> set is the run with \<open>tract_fields\<close>
  empty, followed, when that run returns, by one warning line on stderr, written only
  when \<^verbatim>\<open>CONFIG["warning"]\<close> is true: the tract group raises nothing and leaves the
  data as the other groups left it. In particular, with the state and zipcode groups
  disabled (and the cache directory creatable) the run returns the data as it was.
\<close>

theorem tract_group_only_warns:
  "main env data opts cfg w =
     (case main env data (opts\<lparr>tract_fields := []\<rparr>) cfg w of
        (Some e, d, w') \<Rightarrow> (Some e, d, w')
      | (None, d, w') \<Rightarrow>
          (None, d,
           if tract_fields opts \<noteq> [] \<and> warning_on (CONFIG env)
           then w'\<lparr>stderr := stderr w' @
                  [''WARNING [census]: census tract is not implemented yet'']\<rparr>
           else w')) \<and>
   (state_fields opts = [] \<and> zipcode_fields opts = [] \<and> tract_fields opts \<noteq> [] \<and>
    files w (cachedir cfg) = None \<longrightarrow>
      main env data opts cfg w =
        (None, data,
         warning env ''census tract is not implemented yet''
           (w\<lparr>dirs := insert (cachedir cfg) (dirs w)\<rparr>)))"
proof
  obtain r0 w0 where m: "makedirs (cachedir cfg) w = (r0, w0)"
    by (cases "makedirs (cachedir cfg) w")
  obtain r1 d1 w1 where s: "state_group env data opts w0 = (r1, d1, w1)"
    by (cases "state_group env data opts w0")
  obtain r2 d2 w2 where z: "zipcode_group env d1 opts w1 = (r2, d2, w2)"
    by (cases "zipcode_group env d1 opts w1")
  show "main env data opts cfg w =
     (case main env data (opts\<lparr>tract_fields := []\<rparr>) cfg w of
        (Some e, d, w') \<Rightarrow> (Some e, d, w')
      | (None, d, w') \<Rightarrow>
          (None, d,
           if tract_fields opts \<noteq> [] \<and> warning_on (CONFIG env)
           then w'\<lparr>stderr := stderr w' @
                  [''WARNING [census]: census tract is not implemented yet'']\<rparr>
           else w'))"
    by (cases r0; cases r1; cases r2)
       (simp_all add: main_def m s z tract_group_def warning_def)
  show "state_fields opts = [] \<and> zipcode_fields opts = [] \<and> tract_fields opts \<noteq> [] \<and>
    files w (cachedir cfg) = None \<longrightarrow>
      main env data opts cfg w =
        (None, data,
         warning env ''census tract is not implemented yet''
           (w\<lparr>dirs := insert (cachedir cfg) (dirs w)\<rparr>))"
    by (simp add: main_def makedirs_def state_group_def zipcode_group_def tract_group_def)
qed

text \<open>
  The example: only \<open>tract_fields\<close> is set; the run returns the record set as it was
  and has written the warning.
\<close>

theorem tract_group_only_warns_witness:
  "main (demo_env module_bound demo_net CONFIG_default) (record_at 5 5)
     \<lparr>state_fields = [], zipcode_fields = [], tract_fields = ''TRACTCE''\<rparr> CONFIG_default fresh =
     (None, record_at 5 5,
      fresh\<lparr>stderr := [''WARNING [census]: census tract is not implemented yet'']\<rparr>)"
proof -
  let ?E = "demo_env module_bound demo_net CONFIG_default"
  let ?o = "\<lparr>state_fields = [], zipcode_fields = [], tract_fields = ''TRACTCE''\<rparr>"
  have h: "state_fields ?o = [] \<and> zipcode_fields ?o = [] \<and> tract_fields ?o \<noteq> [] \<and>
    files fresh (cachedir CONFIG_default) = None"
    by (simp add: demo_defs)
  from tract_group_only_warns [THEN conjunct2, rule_format, OF h, of ?E "record_at 5 5"]
  show ?thesis
    by (simp add: warning_def demo_defs)
qed

text \<open>
  Against claim C9 as stated: with \<^verbatim>\<open>CONFIG["warning"]\<close> false the run returns
  without any warning; and with the default \<open>state_fields\<close> and a record set without
  the columns the state group needs, the run does not complete.
\<close>

theorem tract_group_counterexample:
  "main (demo_env module_bound demo_net (CONFIG_default\<lparr>warning_on := False\<rparr>)) (record_at 5 5)
     \<lparr>state_fields = [], zipcode_fields = [], tract_fields = ''TRACTCE''\<rparr>
     (CONFIG_default\<lparr>warning_on := False\<rparr>) fresh =
     (None, record_at 5 5, fresh) \<and>
   stderr fresh = [] \<and>
   fst (main (demo_env all_bound demo_net CONFIG_default) record_other
     \<lparr>state_fields = ''STUSPS'', zipcode_fields = [], tract_fields = ''TRACTCE''\<rparr>
     CONFIG_default fresh) =
     Some (Exception ''unable to process state data without latitude and longitude columns'')"
  by (simp add: run_defs demo_defs)

subsection \<open>The unbound names\<close>










subsection \<open>The column checks\<close>

text \<open>
  What the state group does check: a record set that is not empty and has neither a
  \<open>state\<close> column nor both coordinate columns raises the exception at its first record,
  before anything is looked up.
\<close>

lemma state_group_missing_columns:
  assumes "state_fields opts \<noteq> []" "rws data \<noteq> []" "''state'' \<notin> set (columns data)"
    "''latitude'' \<notin> set (columns data) \<or> ''longitude'' \<notin> set (columns data)"
  shows "state_group env data opts w =
    (Some (Exception ''unable to process state data without latitude and longitude columns''),
     data, w)"
proof -
  from assms(2) obtain l r rest where "rws data = (l, r) # rest"
    by (cases "rws data") auto
  then show ?thesis
    using assms(1,3,4) by (auto simp: state_group_def state_row_def bnd_def raise_def)
qed

text \<open>What the zipcode group checks, before its loop, for every record set.\<close>

lemma zipcode_group_missing_columns:
  assumes "zipcode_fields opts \<noteq> []"
    "''latitude'' \<notin> set (columns data) \<or> ''longitude'' \<notin> set (columns data)"
  shows "zipcode_group env data opts w =
    (Some (Exception ''unable to process zipcode data without latitude and longitude columns''),
     data, w)"
  using assms by (auto simp: zipcode_group_def)

text \<open>
  Claim C7 fails on the code. A record set without records and without any of the
  columns passes the state group's check, which sits inside the loop over the records:
  the run goes on to \<^verbatim>\<open>pandas.concat\<close>, which raises NameError in the module as it
  is, and ValueError for the empty list once \<open>pandas\<close> is bound. And a record set with
  a \<open>state\<close> column but no coordinates, under the default options, never reaches the
  zipcode group's check in the module as it is: the state group raises NameError first.
\<close>

theorem missing_columns_not_reported:
  "fst (main (demo_env module_bound demo_net CONFIG_default) no_records OPTIONS_default
          CONFIG_default fresh) = Some (NameError ''pandas'') \<and>
   fst (main (demo_env all_bound demo_net CONFIG_default) no_records OPTIONS_default
          CONFIG_default fresh) = Some (ValueError ''No objects to concatenate'') \<and>
   fst (main (demo_env module_bound demo_net CONFIG_default) (record_in ''CA'') OPTIONS_default
          CONFIG_default fresh) = Some (NameError ''urllib'')"
  by (simp add: run_defs demo_defs)

subsection \<open>One global for all partitions\<close>

text \<open>
  What \<^verbatim>\<open>get_zipcodes\<close> does on a cache miss in a process that has loaded no ZIP code
  areas: with the archive in place, no cache file for the digit, and \<open>geopandas\<close> and
  \<open>pickle\<close> bound, the global and the cache file of the digit both get the rows of the
  archive whose \<open>GEOID10\<close> starts with the digit.
\<close>

lemma partition_frame_miss:
  assumes "bound env ''geopandas''" "bound env ''pickle''"
    and "files w (fl @ ''.zip'') = Some (Shapefile f)" "''GEOID10'' \<in> set (columns f)"
    and "\<not> path_exists w (fl @ digit @ ''.gdf'')" "d \<in> dirs w"
  shows "partition_frame env d fl digit w =
    (Inr (),
     w\<lparr>zipcode_data := Some (select_rows (\<lambda>r. first_char_is digit (cell_of r ''GEOID10'')) f),
       files := (files w)(fl @ digit @ ''.gdf'' \<mapsto>
         Pickled (select_rows (\<lambda>r. first_char_is digit (cell_of r ''GEOID10'')) f))\<rparr>)"
  using assms
  by (simp add: partition_frame_def Let_def name_def bnd_def ret_def read_file_def
      set_zipcode_data_def lift_def getitem_column_def dump_to_def open_wb_def write_file_def
      path_exists_def)

text \<open>
  Claim C1 fails on the code. The global \<^verbatim>\<open>zipcode_data\<close> is one slot for all digits:
  once a call has loaded the partition of one digit, a call for another digit skips
  the loading block and searches the partition that is there. In the example the first
  call, for digit 0, leaves the partition of digit 0 in the global; the second, for
  digit 1 and a point of the area \<open>10001\<close>, searches that partition and finds nothing.
  The second part is the same step in the module as it is, from a process that holds
  the partition of digit 0: the call for the codes starting with 1 finds none.
\<close>

theorem zipcode_memo_ignores_digit:
  "zipcode_data (snd (get_zipcodes (demo_env all_bound demo_net CONFIG_default) (Some ''0'')
      (Some (Dot (Fin 22) (Fin 5))) CONFIG_default fresh)) = Some demo_partition0 \<and>
   get_zipcodes (demo_env all_bound demo_net CONFIG_default) (Some ''1'')
      (Some (Dot (Fin 22) (Fin 5))) CONFIG_default
      (snd (get_zipcodes (demo_env all_bound demo_net CONFIG_default) (Some ''0'')
         (Some (Dot (Fin 22) (Fin 5))) CONFIG_default fresh)) =
     (Inr \<lparr>columns = [''index'', ''ZCTA5CE10'', ''GEOID10'', ''geometry''], rws = []\<rparr>,
      snd (get_zipcodes (demo_env all_bound demo_net CONFIG_default) (Some ''0'')
         (Some (Dot (Fin 22) (Fin 5))) CONFIG_default fresh)) \<and>
   shape_contains (Rect 20 0 25 10) (Dot (Fin 22) (Fin 5)) \<and>
   get_zipcodes (demo_env module_bound demo_net CONFIG_default) (Some ''1'') None CONFIG_default
      (loaded demo_states demo_partition0) =
     (Inr \<lparr>columns = [''index'', ''ZCTA5CE10'', ''GEOID10'', ''geometry''], rws = []\<rparr>,
      loaded demo_states demo_partition0) \<and>
   fst (snd (main (demo_env all_bound demo_net CONFIG_default) (record_at 22 5) OPTIONS_default
          CONFIG_default fresh)) =
     \<lparr>columns = [''latitude'', ''longitude'', ''STUSPS'', ''ZCTA5CE10''],
      rws = [(0, [(''latitude'', PyFloat (Fin 5)), (''longitude'', PyFloat (Fin 22)),
                  (''STUSPS'', PyStr ''NY''), (''ZCTA5CE10'', PyFloat Nan)])]\<rparr>"
  by (simp add: run_defs demo_defs)

subsection \<open>The download\<close>




subsection \<open>Assignment of a column\<close>

lemma labels_setitem [simp]: "map fst (rws (setitem d c s)) = map fst (rws d)"
  by (auto simp: setitem_def)



text \<open>
  The assigned column holds the values of the series, aligned on the labels: whatever
  the column held before is overwritten.
\<close>

lemma series_setitem_same:
  "series (setitem d c s) c =
     map (\<lambda>(l, r). (l, case map_of s l of Some v \<Rightarrow> v | None \<Rightarrow> PyFloat Nan)) (rws d)"
  by (auto simp: series_def setitem_def cell_of_update)


subsection \<open>What the loops leave in the globals\<close>
















subsection \<open>The columns of the search results\<close>


lemma columns_select_rows [simp]: "columns (select_rows P f) = columns f"
  by (simp add: select_rows_def)









subsection \<open>The loops over the records\<close>















subsection \<open>The groups and the run\<close>









end
